theory Spec2Isabelle
  imports Main "HOL-Library.Sublist"
begin

section \<open>JavaScript values\<close>

text \<open>
  The connection and the screenshot tool test optional values for truthiness.
  An optional string is falsy when it is \<open>undefined\<close> or empty, an optional boolean when
  it is \<open>undefined\<close> or \<open>false\<close>. Arrays and objects are always truthy.
\<close>

fun truthy_string :: "string option \<Rightarrow> bool" where
  "truthy_string None = False"
| "truthy_string (Some s) = (s \<noteq> [])"

fun truthy_bool :: "bool option \<Rightarrow> bool" where
  "truthy_bool None = False"
| "truthy_bool (Some b) = b"

text \<open>\<open>Array.prototype.join(sep)\<close> on an array of strings.\<close>

fun join :: "string list \<Rightarrow> string \<Rightarrow> string" where
  "join [] sep = []"
| "join [x] sep = x"
| "join (x # y # ys) sep = x @ sep @ join (y # ys) sep"

text \<open>\<open>String.prototype.includes(p)\<close>: \<open>p\<close> occurs in \<open>s\<close> as a contiguous run.\<close>

fun string_includes :: "string \<Rightarrow> string \<Rightarrow> bool" where
  "string_includes [] p = (p = [])"
| "string_includes (c # cs) p = (prefix p (c # cs) \<or> string_includes cs p)"

text \<open>
  Request arguments are JSON values. The payload of a number plays no part in what
  follows (only that it is neither a string nor a boolean), so it is kept as an integer.
  An object is an association list with distinct keys, read with \<open>map_of\<close>.
\<close>

datatype json =
    JNull
  | JBool bool
  | JNumber int
  | JString string
  | JArray "json list"
  | JObject "(string \<times> json) list"

section \<open>Data model of the connection\<close>

record 's ToolSchema =
  name :: string
  title :: string
  description :: string
  inputSchema :: 's
  type :: string

record ('s, 'h) Tool =
  capability :: string
  schema :: "'s ToolSchema"
  clearsModalState :: "string option"
  handle :: 'h

record FullConfig =
  vision :: "bool option"
  capabilities :: "string list option"
  keepBrowserOpen :: "bool option"

record ModalState =
  type :: string
  description :: string

text \<open>The result envelope of a tool call; \<open>isError\<close> is \<open>None\<close> when the property is absent.\<close>

record TextContent =
  type :: string
  text' :: string

record CallToolResult =
  content :: "TextContent list"
  isError :: "bool option"

text \<open>One entry of the answer to a list request.\<close>

record ToolAnnotations =
  title :: string
  readOnlyHint :: bool
  destructiveHint :: bool
  openWorldHint :: bool

record 'j McpTool =
  name :: string
  description :: string
  inputSchema :: 'j
  annotations :: ToolAnnotations

text \<open>
  Arrays are objects: the catalogs, the array \<open>filter\<close> returns and the array handed to
  the session are addresses into the program's arrays, and two holders of one address see
  each other's writes. \<open>fresh\<close> is the next unused address. The state the session works
  on is the arrays together with the session's own fields.
\<close>

record ('s, 'h) heap =
  arrays :: "nat \<Rightarrow> ('s, 'h) Tool list"
  fresh :: nat

record ('x, 's, 'h) world = "('s, 'h) heap" +
  session :: 'x

text \<open>
  The session (\<open>Context\<close>), the protocol server (\<open>McpServer\<close>) and the configuration
  check are collaborators of the connection whose code lies outside it. Their states are
  the abstract types \<open>'c\<close> and \<open>'srv\<close>; their operations are taken as parameters. An
  operation that can throw returns \<open>Inl\<close> of the thrown value (type \<open>'e\<close>), and
  \<open>Context_run\<close> also returns the session state it leaves behind. Reading the modal
  states and rendering them are reads of the session state. \<open>String\<close> is the conversion
  of a thrown value to a string; it throws for a value that has no string form. The
  constructor of the session receives the address of the tool array and the program's
  arrays, and \<open>'c\<close> is the state the session's operations work on.
\<close>

record ('c, 'srv, 's, 'h, 'f, 'e) Collaborators =
  validateConfig :: "FullConfig \<Rightarrow> 'e option"
  Context_new :: "nat \<Rightarrow> FullConfig \<Rightarrow> 'f \<Rightarrow> ('s, 'h) heap \<Rightarrow> 'c"
  Context_config :: "'c \<Rightarrow> FullConfig"
  Context_modalStates :: "'c \<Rightarrow> ModalState list"
  Context_modalStatesMarkdown :: "'c \<Rightarrow> string list"
  Context_run :: "'c \<Rightarrow> ('s, 'h) Tool \<Rightarrow> json option \<Rightarrow> ('e + CallToolResult) \<times> 'c"
  Context_close :: "'c \<Rightarrow> 'e + 'c"
  McpServer_new :: "string \<Rightarrow> string \<Rightarrow> 'srv"
  McpServer_close :: "'srv \<Rightarrow> 'e + 'srv"
  String :: "'e \<Rightarrow> 'e + string"

text \<open>
  A connection holds the server and the session (the field \<open>context'\<close>). The request
  handlers registered on the server close over the constant \<open>tools\<close> of
  \<open>createConnection\<close>; the field \<open>tools'\<close> is that constant, the address of an array.
\<close>

record ('c, 'srv) Connection =
  server :: 'srv
  context' :: 'c
  tools' :: nat

text \<open>The calls a request handler or \<open>close\<close> makes on its collaborators, in order.\<close>

datatype ('s, 'h) call =
    CallModalStates
  | CallModalStatesMarkdown
  | CallRun "('s, 'h) Tool" "json option"
  | CallServerClose
  | CallContextClose

record CallToolRequest =
  name :: string
  arguments :: "json option"

section \<open>createConnection\<close>

definition createConnection_allTools ::
  "FullConfig \<Rightarrow> ('s, 'h) Tool list \<Rightarrow> ('s, 'h) Tool list \<Rightarrow> ('s, 'h) Tool list" where
  "createConnection_allTools config visionTools snapshotTools =
     (if truthy_bool (vision config) then visionTools else snapshotTools)"

definition createConnection_tools ::
  "FullConfig \<Rightarrow> ('s, 'h) Tool list \<Rightarrow> ('s, 'h) Tool list \<Rightarrow> ('s, 'h) Tool list" where
  "createConnection_tools config visionTools snapshotTools =
     (let allTools = createConnection_allTools config visionTools snapshotTools in
      case capabilities config of
        None \<Rightarrow> allTools
      | Some caps \<Rightarrow>
          if length caps > 0
          then filter (\<lambda>tool. capability tool = ''core'' \<or> capability tool \<in> set caps) allTools
          else allTools)"

text \<open>
  The same selection on addresses: \<open>allTools\<close> is the address of a catalog, and \<open>tools\<close>
  is either the address of the new array that \<open>filter\<close> returns or, when no capability
  is configured, the address of the catalog itself.
\<close>

definition createConnection_array ::
  "FullConfig \<Rightarrow> nat \<Rightarrow> nat \<Rightarrow> ('s, 'h) heap \<Rightarrow> nat \<times> ('s, 'h) heap" where
  "createConnection_array config visionTools snapshotTools h =
     (let allTools = (if truthy_bool (vision config) then visionTools else snapshotTools) in
      case capabilities config of
        None \<Rightarrow> (allTools, h)
      | Some caps \<Rightarrow>
          if length caps > 0
          then (fresh h,
                h\<lparr>arrays := (arrays h)
                      (fresh h :=
                         filter (\<lambda>tool. capability tool = ''core'' \<or> capability tool \<in> set caps)
                           (arrays h allTools)),
                  fresh := Suc (fresh h)\<rparr>)
          else (allTools, h))"


subsection \<open>The list request\<close>

definition listTools :: "('s \<Rightarrow> 'j) \<Rightarrow> ('s, 'h) Tool list \<Rightarrow> 'j McpTool list" where
  "listTools zodToJsonSchema tools =
     map (\<lambda>tool.
       \<lparr>McpTool.name = ToolSchema.name (schema tool),
        McpTool.description = ToolSchema.description (schema tool),
        McpTool.inputSchema = zodToJsonSchema (ToolSchema.inputSchema (schema tool)),
        annotations =
          \<lparr>ToolAnnotations.title = ToolSchema.title (schema tool),
           readOnlyHint = (ToolSchema.type (schema tool) = ''readOnly''),
           destructiveHint = (ToolSchema.type (schema tool) = ''destructive''),
           openWorldHint = True\<rparr>\<rparr>) tools"

subsection \<open>The call request\<close>

definition errorResult :: "string list \<Rightarrow> CallToolResult" where
  "errorResult messages =
     \<lparr>content = [\<lparr>TextContent.type = ''text'', text' = join messages [CHR 0x0A]\<rparr>],
      isError = Some True\<rparr>"

text \<open>
  The handler of a call request. It returns what the handler returns (\<open>Inl\<close> is an
  exception leaving the handler), the session state afterwards and the calls made. The
  argument \<open>tools\<close> is the tool array as it is when the request arrives.
\<close>

definition callTool ::
  "('c, 'srv, 's, 'h, 'f, 'e) Collaborators \<Rightarrow> ('s, 'h) Tool list \<Rightarrow> 'c \<Rightarrow> CallToolRequest \<Rightarrow>
   ('e + CallToolResult) \<times> 'c \<times> ('s, 'h) call list" where
  \<open>callTool env tools context request =
     (case find (\<lambda>tool. ToolSchema.name (schema tool) = CallToolRequest.name request) tools of
        None \<Rightarrow>
          (Inr (errorResult [''Tool "'' @ CallToolRequest.name request @ ''" not found'']),
           context, [])
      | Some tool \<Rightarrow>
          let modalStates = map ModalState.type (Context_modalStates env context) in
          if truthy_string (clearsModalState tool) \<and>
             the (clearsModalState tool) \<notin> set modalStates
          then
            (Inr (errorResult
               ((''The tool "'' @ CallToolRequest.name request @
                 ''" can only be used when there is related modal state present.'') #
                Context_modalStatesMarkdown env context)),
             context, [CallModalStates, CallModalStatesMarkdown])
          else if \<not> truthy_string (clearsModalState tool) \<and> length modalStates > 0
          then
            (Inr (errorResult
               ((''Tool "'' @ CallToolRequest.name request @
                 ''" does not handle the modal state.'') #
                Context_modalStatesMarkdown env context)),
             context, [CallModalStates, CallModalStatesMarkdown])
          else
            (case Context_run env context tool (arguments request) of
               (Inr result, after) \<Rightarrow>
                 (Inr result, after, [CallModalStates, CallRun tool (arguments request)])
             | (Inl error, after) \<Rightarrow>
                 (case String env error of
                    Inr message \<Rightarrow>
                      (Inr (errorResult [message]), after,
                       [CallModalStates, CallRun tool (arguments request)])
                  | Inl e \<Rightarrow>
                      (Inl e, after, [CallModalStates, CallRun tool (arguments request)]))))\<close>

subsection \<open>Connection.close\<close>

definition Connection_close ::
  "('c, 'srv, 's, 'h, 'f, 'e) Collaborators \<Rightarrow> ('c, 'srv) Connection \<Rightarrow>
   ('e + ('c, 'srv) Connection) \<times> ('s, 'h) call list" where
  "Connection_close env this =
     (case McpServer_close env (server this) of
        Inl e \<Rightarrow> (Inl e, [CallServerClose])
      | Inr server' \<Rightarrow>
          if \<not> truthy_bool (keepBrowserOpen (Context_config env (context' this)))
          then
            (case Context_close env (context' this) of
               Inl e \<Rightarrow> (Inl e, [CallServerClose, CallContextClose])
             | Inr after \<Rightarrow>
                 (Inr (this\<lparr>server := server', context' := after\<rparr>),
                  [CallServerClose, CallContextClose]))
          else (Inr (this\<lparr>server := server'\<rparr>), [CallServerClose]))"

subsection \<open>Serving requests\<close>

text \<open>
  Both handlers read the array at the address \<open>tools\<close> when the request arrives. The
  state of the session is here the arrays and the session's own fields, so that what the
  session writes to an array is seen by the next request.
\<close>

datatype request = ListTools | CallTool CallToolRequest

datatype ('j, 'e) response = ListToolsResponse "'j McpTool list" | CallToolResponse "'e + CallToolResult"

definition serve ::
  "(('x, 's, 'h) world, 'srv, 's, 'h, 'f, 'e) Collaborators \<Rightarrow> ('s \<Rightarrow> 'j) \<Rightarrow>
   (('x, 's, 'h) world, 'srv) Connection \<Rightarrow>
   request \<Rightarrow> ('j, 'e) response \<times> (('x, 's, 'h) world, 'srv) Connection" where
  "serve env zodToJsonSchema conn req =
     (case req of
        ListTools \<Rightarrow>
          (ListToolsResponse
             (listTools zodToJsonSchema (arrays (context' conn) (tools' conn))), conn)
      | CallTool r \<Rightarrow>
          (case callTool env (arrays (context' conn) (tools' conn)) (context' conn) r of
             (res, after, calls) \<Rightarrow> (CallToolResponse res, conn\<lparr>context' := after\<rparr>)))"

fun serve_all ::
  "(('x, 's, 'h) world, 'srv, 's, 'h, 'f, 'e) Collaborators \<Rightarrow> ('s \<Rightarrow> 'j) \<Rightarrow>
   (('x, 's, 'h) world, 'srv) Connection \<Rightarrow>
   request list \<Rightarrow> ('j, 'e) response list \<times> (('x, 's, 'h) world, 'srv) Connection" where
  "serve_all env zodToJsonSchema conn [] = ([], conn)"
| "serve_all env zodToJsonSchema conn (req # reqs) =
     (case serve env zodToJsonSchema conn req of
        (res, conn') \<Rightarrow>
          (case serve_all env zodToJsonSchema conn' reqs of
             (ress, conn'') \<Rightarrow> (res # ress, conn'')))"


section \<open>The screenshot tool\<close>

subsection \<open>The input schema\<close>

text \<open>
  The schema is a \<open>z.object\<close> of five fields with a refinement. Parsing a field yields
  the value or the issues found; an issue is recorded by its code and path (and, for the
  refinement, its message). \<open>z.string()\<close> accepts a string; \<open>.optional()\<close> also accepts
  a missing key. The object parser reports the issues of all its fields, and the
  refinement runs only on an object that parsed without issues.
\<close>

datatype ZodIssue = invalid_type "string list" | custom string "string list"

record ScreenshotParams =
  raw :: "bool option"
  filename :: string
  fullPage :: "bool option"
  element :: "string option"
  ref :: "string option"

fun z_string :: "string list \<Rightarrow> json option \<Rightarrow> ZodIssue list + string" where
  "z_string path (Some (JString s)) = Inr s"
| "z_string path _ = Inl [invalid_type path]"

fun z_string_optional :: "string list \<Rightarrow> json option \<Rightarrow> ZodIssue list + string option" where
  "z_string_optional path None = Inr None"
| "z_string_optional path (Some (JString s)) = Inr (Some s)"
| "z_string_optional path _ = Inl [invalid_type path]"

fun z_boolean_optional :: "string list \<Rightarrow> json option \<Rightarrow> ZodIssue list + bool option" where
  "z_boolean_optional path None = Inr None"
| "z_boolean_optional path (Some (JBool b)) = Inr (Some b)"
| "z_boolean_optional path _ = Inl [invalid_type path]"

fun issues :: "ZodIssue list + 'a \<Rightarrow> ZodIssue list" where
  "issues (Inl is) = is"
| "issues (Inr v) = []"

fun screenshotSchema_object :: "json \<Rightarrow> ZodIssue list + ScreenshotParams" where
  "screenshotSchema_object (JObject kvs) =
     (let data = map_of kvs;
          raw = z_boolean_optional [''raw''] (data ''raw'');
          filename = z_string [''filename''] (data ''filename'');
          fullPage = z_boolean_optional [''fullPage''] (data ''fullPage'');
          element = z_string_optional [''element''] (data ''element'');
          ref = z_string_optional [''ref''] (data ''ref'');
          all_issues = issues raw @ issues filename @ issues fullPage @ issues element @ issues ref
      in case raw of Inl _ \<Rightarrow> Inl all_issues | Inr r \<Rightarrow>
         (case filename of Inl _ \<Rightarrow> Inl all_issues | Inr f \<Rightarrow>
         (case fullPage of Inl _ \<Rightarrow> Inl all_issues | Inr p \<Rightarrow>
         (case element of Inl _ \<Rightarrow> Inl all_issues | Inr e \<Rightarrow>
         (case ref of Inl _ \<Rightarrow> Inl all_issues | Inr x \<Rightarrow>
            Inr \<lparr>raw = r, filename = f, fullPage = p, element = e, ref = x\<rparr>)))))"
| "screenshotSchema_object _ = Inl [invalid_type []]"

definition screenshotSchema :: "json \<Rightarrow> ZodIssue list + ScreenshotParams" where
  "screenshotSchema input =
     (case screenshotSchema_object input of
        Inl is \<Rightarrow> Inl is
      | Inr data \<Rightarrow>
          if truthy_string (element data) = truthy_string (ref data) then Inr data
          else Inl [custom ''Both element and ref must be provided or neither.''
                      [''ref'', ''element'']])"

subsection \<open>The handler\<close>

record PageScreenshotOptions =
  type :: string
  quality :: "nat option"
  scale :: string
  path :: string
  fullPage :: bool

text \<open>The deferred action: a screenshot of a located element or of the page of the tab.\<close>

datatype ('loc, 'tab) ScreenshotAction =
    locator_screenshot 'loc PageScreenshotOptions
  | page_screenshot 'tab PageScreenshotOptions

record ('loc, 'tab) ToolResult =
  code :: "string list"
  action :: "('loc, 'tab) ScreenshotAction"
  captureSnapshot :: bool
  waitForNetwork :: bool
  resultOverride :: CallToolResult

text \<open>The options a deferred action was built with.\<close>

fun action_options :: "('loc, 'tab) ScreenshotAction \<Rightarrow> PageScreenshotOptions" where
  "action_options (locator_screenshot locator options) = options"
| "action_options (page_screenshot tab options) = options"

text \<open>
  What the handler calls outside its own file: the session and its current tab, the two
  functions of \<open>config.js\<close> that choose the output path, and the helpers that render the
  locator and the options into the generated code.
\<close>

record ('c, 'tab, 'snap, 'loc, 'e) ScreenshotCollaborators =
  currentTabOrDie :: "'c \<Rightarrow> 'e + 'tab"
  snapshotOrDie :: "'tab \<Rightarrow> 'e + 'snap"
  page_url :: "'tab \<Rightarrow> string"
  context_config :: "'c \<Rightarrow> FullConfig"
  standardizedOutputFile :: "string \<Rightarrow> string \<Rightarrow> 'e + string"
  outputFile :: "FullConfig \<Rightarrow> string \<Rightarrow> 'e + string"
  refLocator :: "'snap \<Rightarrow> string \<Rightarrow> string \<Rightarrow> 'e + 'loc"
  generateLocator :: "'loc \<Rightarrow> 'e + string"
  formatObject :: "PageScreenshotOptions \<Rightarrow> string"

definition useStandardizedPath :: "ScreenshotParams \<Rightarrow> bool" where
  "useStandardizedPath params =
     (string_includes (filename params) ''screenshot'' \<or>
      string_includes (filename params) ''capture'')"

definition fileType :: "ScreenshotParams \<Rightarrow> string" where
  "fileType params = (if truthy_bool (raw params) then ''png'' else ''jpeg'')"

definition screenshot_options :: "ScreenshotParams \<Rightarrow> string \<Rightarrow> PageScreenshotOptions" where
  "screenshot_options params fileName =
     \<lparr>PageScreenshotOptions.type = fileType params,
      quality = (if fileType params = ''png'' then None else Some 50),
      scale = ''css'',
      path = fileName,
      PageScreenshotOptions.fullPage =
        (case ScreenshotParams.fullPage params of None \<Rightarrow> False | Some b \<Rightarrow> b)\<rparr>"

definition screenshot_code_head :: "ScreenshotParams \<Rightarrow> string \<Rightarrow> string" where
  "screenshot_code_head params fileName =
     ''// Screenshot '' @
     (if truthy_string (element params) \<and> truthy_string (ref params) then the (element params)
      else if truthy_bool (ScreenshotParams.fullPage params) then ''full page''
      else ''viewport'') @
     '' and save it as '' @ fileName"

definition screenshot_result ::
  "ScreenshotParams \<Rightarrow> string \<Rightarrow> string \<Rightarrow> ('loc, 'tab) ScreenshotAction \<Rightarrow> ('loc, 'tab) ToolResult" where
  "screenshot_result params fileName code_tail act =
     \<lparr>code = [screenshot_code_head params fileName, code_tail],
      action = act,
      captureSnapshot = True,
      waitForNetwork = False,
      resultOverride =
        \<lparr>content = [\<lparr>TextContent.type = ''text'', text' = ''Screenshot saved to: '' @ fileName\<rparr>],
         isError = None\<rparr>\<rparr>"

definition screenshot_handle ::
  "('c, 'tab, 'snap, 'loc, 'e) ScreenshotCollaborators \<Rightarrow> 'c \<Rightarrow> ScreenshotParams \<Rightarrow>
   'e + ('loc, 'tab) ToolResult" where
  "screenshot_handle env context params =
     (case currentTabOrDie env context of Inl e \<Rightarrow> Inl e | Inr tab \<Rightarrow>
      (case snapshotOrDie env tab of Inl e \<Rightarrow> Inl e | Inr snapshot \<Rightarrow>
      (case (if useStandardizedPath params
             then standardizedOutputFile env (page_url env tab) (fileType params)
             else outputFile env (context_config env context) (filename params))
       of Inl e \<Rightarrow> Inl e | Inr fileName \<Rightarrow>
         (let options = screenshot_options params fileName in
          if truthy_string (ref params)
          then
            (case refLocator env snapshot
                    (if truthy_string (element params) then the (element params) else [])
                    (the (ref params))
             of Inl e \<Rightarrow> Inl e | Inr locator \<Rightarrow>
               (case generateLocator env locator of Inl e \<Rightarrow> Inl e | Inr loc \<Rightarrow>
                  Inr (screenshot_result params fileName
                         (''await page.'' @ loc @ ''.screenshot('' @ formatObject env options @ '');'')
                         (locator_screenshot locator options))))
          else
            Inr (screenshot_result params fileName
                   (''await page.screenshot('' @ formatObject env options @ '');'')
                   (page_screenshot tab options))))))"

definition screenshot ::
  "('c, 'tab, 'snap, 'loc, 'e) ScreenshotCollaborators \<Rightarrow>
   (json \<Rightarrow> ZodIssue list + ScreenshotParams,
    'c \<Rightarrow> ScreenshotParams \<Rightarrow> 'e + ('loc, 'tab) ToolResult) Tool" where
  "screenshot env =
     \<lparr>capability = ''core'',
      schema =
        \<lparr>ToolSchema.name = ''browser_take_screenshot'',
         ToolSchema.title = ''Take a screenshot'',
         ToolSchema.description =
           ''Take a screenshot of the current page. You can'' @ [CHR 0x27] @
           ''t perform actions based on the screenshot, use browser_snapshot for actions.'',
         ToolSchema.inputSchema = screenshotSchema,
         ToolSchema.type = ''readOnly''\<rparr>,
      clearsModalState = None,
      handle = screenshot_handle env\<rparr>"

section \<open>Sample values\<close>

text \<open>A tool without schema payload or handler, fixed by its name, capability and modal state.\<close>

definition sample_tool :: "string \<Rightarrow> string \<Rightarrow> string option \<Rightarrow> (unit, unit) Tool" where
  "sample_tool n cap clears =
     \<lparr>capability = cap,
      schema = \<lparr>ToolSchema.name = n, ToolSchema.title = n, ToolSchema.description = [],
                ToolSchema.inputSchema = (), ToolSchema.type = ''readOnly''\<rparr>,
      clearsModalState = clears,
      handle = ()\<rparr>"

text \<open>
  Thrown values: an error object with a name and a message, and an object without a
  prototype, which has no string form (\<open>String\<close> of it throws a \<open>TypeError\<close>).
\<close>

datatype thrown = JsError string string | BareObject

fun sample_String :: "thrown \<Rightarrow> thrown + string" where
  "sample_String (JsError n m) = Inr (n @ '': '' @ m)"
| "sample_String BareObject =
     Inl (JsError ''TypeError'' ''Cannot convert object to primitive value'')"

text \<open>
  A session whose state is its configuration and its modal states. Running a tool without
  arguments throws an error; running it with the argument \<open>null\<close> throws an object
  without a prototype; running it with other arguments answers with an empty result and
  resolves the modal states. Closing the session discards its modal states.
\<close>

definition sample_config :: "bool option \<Rightarrow> FullConfig" where
  "sample_config keep = \<lparr>vision = None, capabilities = None, keepBrowserOpen = keep\<rparr>"

definition sample_env ::
  "(FullConfig \<times> ModalState list, nat, unit, unit, unit, thrown) Collaborators" where
  "sample_env =
     \<lparr>validateConfig = (\<lambda>config. None),
      Context_new = (\<lambda>tools config factory h. (config, [])),
      Context_config = fst,
      Context_modalStates = snd,
      Context_modalStatesMarkdown =
        (\<lambda>c. ''### Modal state'' # map (\<lambda>s. ''- ['' @ ModalState.description s @ '']'') (snd c)),
      Context_run =
        (\<lambda>c tool args.
           if args = None then (Inl (JsError ''Error'' ''no arguments''), c)
           else if args = Some JNull then (Inl BareObject, c)
           else (Inr \<lparr>content = [], isError = None\<rparr>, (fst c, []))),
      Context_close = (\<lambda>c. Inr (fst c, [])),
      McpServer_new = (\<lambda>n v. 0),
      McpServer_close = (\<lambda>s. Inr (Suc s)),
      String = sample_String\<rparr>"

text \<open>
  The same session over the program's arrays. Its operations leave the arrays alone; in
  \<open>sample_writing_env\<close> running a tool empties the array at address 0.
\<close>

definition sample_world_env ::
  "((FullConfig \<times> ModalState list, unit, unit) world, nat, unit, unit, unit, thrown) Collaborators" where
  "sample_world_env =
     \<lparr>validateConfig = (\<lambda>config. None),
      Context_new =
        (\<lambda>tools config factory h. \<lparr>arrays = arrays h, fresh = fresh h, session = (config, [])\<rparr>),
      Context_config = (\<lambda>w. fst (session w)),
      Context_modalStates = (\<lambda>w. snd (session w)),
      Context_modalStatesMarkdown =
        (\<lambda>w. ''### Modal state'' #
              map (\<lambda>s. ''- ['' @ ModalState.description s @ '']'') (snd (session w))),
      Context_run =
        (\<lambda>w tool args.
           if args = None then (Inl (JsError ''Error'' ''no arguments''), w)
           else (Inr \<lparr>content = [], isError = None\<rparr>, w\<lparr>session := (fst (session w), [])\<rparr>)),
      Context_close = (\<lambda>w. Inr (w\<lparr>session := (fst (session w), [])\<rparr>)),
      McpServer_new = (\<lambda>n v. 0),
      McpServer_close = (\<lambda>s. Inr (Suc s)),
      String = sample_String\<rparr>"

definition sample_writing_env ::
  "((FullConfig \<times> ModalState list, unit, unit) world, nat, unit, unit, unit, thrown) Collaborators" where
  "sample_writing_env =
     sample_world_env
       \<lparr>Context_run :=
          (\<lambda>w tool args. (Inr \<lparr>content = [], isError = None\<rparr>, w\<lparr>arrays := (arrays w)(0 := [])\<rparr>))\<rparr>"

definition sample_heap :: "(unit, unit) heap" where
  "sample_heap =
     \<lparr>arrays = (\<lambda>a. if a = 0 then [sample_tool ''browser_click'' ''core'' None,
                                    sample_tool ''browser_pdf_save'' ''pdf'' None]
                     else []),
      fresh = 2\<rparr>"

text \<open>
  A session for the screenshot tool: its state is the URL of the current tab, if any.
\<close>

definition sample_screenshot_env ::
  "(string option, string, unit, string, string) ScreenshotCollaborators" where
  "sample_screenshot_env =
     \<lparr>currentTabOrDie = (\<lambda>c. case c of None \<Rightarrow> Inl ''Error: No current tab'' | Some url \<Rightarrow> Inr url),
      snapshotOrDie = (\<lambda>tab. Inr ()),
      page_url = (\<lambda>tab. tab),
      context_config = (\<lambda>c. sample_config None),
      standardizedOutputFile = (\<lambda>url fileType. Inr (''/out/'' @ url @ ''.'' @ fileType)),
      outputFile = (\<lambda>config fileName. Inr (''/out/'' @ fileName)),
      refLocator = (\<lambda>snapshot element ref. Inr ref),
      generateLocator = (\<lambda>locator. Inr (''locator('' @ locator @ '')'')),
      formatObject = (\<lambda>options. ''{ path: '' @ path options @ '' }'')\<rparr>"

section \<open>Strings\<close>

lemma string_includes_sublist: "string_includes s p \<longleftrightarrow> sublist p s"
  by (induction s) (simp_all add: sublist_Cons_right)

lemma string_includes_append: "string_includes (a @ p @ b) p"
  by (simp add: string_includes_sublist)

lemma join_split: "x \<in> set xs \<Longrightarrow> \<exists>a b. join xs sep = a @ x @ b"
proof (induction xs sep rule: join.induct)
  case (1 sep)
  then show ?case by simp
next
  case (2 y sep)
  then have "join [y] sep = [] @ x @ []" by simp
  then show ?case by blast
next
  case (3 y z zs sep)
  show ?case
  proof (cases "x = y")
    case True
    then have "join (y # z # zs) sep = [] @ x @ (sep @ join (z # zs) sep)" by simp
    then show ?thesis by blast
  next
    case False
    with 3 obtain a b where "join (z # zs) sep = a @ x @ b" by auto
    then have "join (y # z # zs) sep = (y @ sep @ a) @ x @ b" by simp
    then show ?thesis by blast
  qed
qed

lemma join_includes: "x \<in> set xs \<Longrightarrow> string_includes (join xs sep) x"
  using join_split [of x xs sep] string_includes_append by metis

section \<open>Tool selection\<close>

text \<open>
  C1. The catalog is \<open>visionTools\<close> when \<open>config.vision\<close> is truthy and \<open>snapshotTools\<close>
  otherwise. With a non-empty allow-list \<open>L\<close> the active tools are the tools of the catalog,
  in catalog order, whose capability is \<open>core\<close> or occurs in \<open>L\<close>; with no allow-list or
  an empty one they are the whole catalog.
\<close>

theorem createConnection_tools_selection:
  "(capabilities config = Some L \<and> L \<noteq> [] \<longrightarrow>
      createConnection_tools config visionTools snapshotTools =
        filter (\<lambda>tool. capability tool = ''core'' \<or> capability tool \<in> set L)
          (if truthy_bool (vision config) then visionTools else snapshotTools) \<and>
      (\<forall>tool. tool \<in> set (createConnection_tools config visionTools snapshotTools) \<longleftrightarrow>
         tool \<in> set (if truthy_bool (vision config) then visionTools else snapshotTools) \<and>
         (capability tool = ''core'' \<or> capability tool \<in> set L))) \<and>
   (capabilities config = None \<or> capabilities config = Some [] \<longrightarrow>
      createConnection_tools config visionTools snapshotTools =
        (if truthy_bool (vision config) then visionTools else snapshotTools))"
  by (auto simp: createConnection_tools_def createConnection_allTools_def)

theorem createConnection_tools_selection_witness:
  "createConnection_tools \<lparr>vision = None, capabilities = Some [''pdf''], keepBrowserOpen = None\<rparr>
     [sample_tool ''v'' ''core'' None]
     [sample_tool ''a'' ''core'' None, sample_tool ''b'' ''pdf'' None, sample_tool ''c'' ''tabs'' None]
   = [sample_tool ''a'' ''core'' None, sample_tool ''b'' ''pdf'' None] \<and>
   createConnection_tools \<lparr>vision = Some True, capabilities = Some [], keepBrowserOpen = None\<rparr>
     [sample_tool ''v'' ''core'' None, sample_tool ''w'' ''tabs'' None]
     [sample_tool ''a'' ''core'' None]
   = [sample_tool ''v'' ''core'' None, sample_tool ''w'' ''tabs'' None]"
  using
    createConnection_tools_selection
      [of "\<lparr>vision = None, capabilities = Some [''pdf''], keepBrowserOpen = None\<rparr>" "[''pdf'']"
          "[sample_tool ''v'' ''core'' None]"
          "[sample_tool ''a'' ''core'' None, sample_tool ''b'' ''pdf'' None,
            sample_tool ''c'' ''tabs'' None]"]
    createConnection_tools_selection
      [of "\<lparr>vision = Some True, capabilities = Some [], keepBrowserOpen = None\<rparr>" "[]"
          "[sample_tool ''v'' ''core'' None, sample_tool ''w'' ''tabs'' None]"
          "[sample_tool ''a'' ''core'' None]"]
  by (simp add: sample_tool_def)

section \<open>The call request\<close>

text \<open>
  C2. A call of a tool whose \<open>clearsModalState\<close> names a kind \<open>K\<close> (a non-empty string, so
  that the handler's test of the property succeeds), made while no modal state of the
  session has type \<open>K\<close>, returns the error envelope whose text is the rejection message
  followed by the rendered modal states, one per line. The text contains the message and
  every rendered line. The session state is returned as it was and the handler never
  calls \<open>context.run\<close>, the only place where a tool's handler and action run.
\<close>

theorem callTool_rejects_missing_modal_state:
  assumes "find (\<lambda>tool. ToolSchema.name (schema tool) = CallToolRequest.name request) tools = Some T"
    and "clearsModalState T = Some K" and "K \<noteq> []"
    and "K \<notin> set (map ModalState.type (Context_modalStates env context))"
  shows \<open>callTool env tools context request =
           (Inr \<lparr>content =
                   [\<lparr>TextContent.type = ''text'',
                     text' = join ((''The tool "'' @ CallToolRequest.name request @
                                    ''" can only be used when there is related modal state present.'') #
                                   Context_modalStatesMarkdown env context) [CHR 0x0A]\<rparr>],
                 isError = Some True\<rparr>,
            context, [CallModalStates, CallModalStatesMarkdown]) \<and>
         (\<forall>line \<in> set ((''The tool "'' @ CallToolRequest.name request @
                         ''" can only be used when there is related modal state present.'') #
                        Context_modalStatesMarkdown env context).
            string_includes
              (join ((''The tool "'' @ CallToolRequest.name request @
                      ''" can only be used when there is related modal state present.'') #
                     Context_modalStatesMarkdown env context) [CHR 0x0A]) line) \<and>
         (\<forall>tool args. CallRun tool args \<notin> set (snd (snd (callTool env tools context request))))\<close>
proof -
  have \<open>callTool env tools context request =
           (Inr (errorResult ((''The tool "'' @ CallToolRequest.name request @
                                    ''" can only be used when there is related modal state present.'') #
                                   Context_modalStatesMarkdown env context)),
            context, [CallModalStates, CallModalStatesMarkdown])\<close>
    using assms by (simp add: callTool_def)
  then show ?thesis
    by (simp add: errorResult_def join_includes del: join.simps)
qed

theorem callTool_rejects_missing_modal_state_witness:
  \<open>callTool sample_env [sample_tool ''browser_handle_dialog'' ''core'' (Some ''dialog'')]
     (sample_config None, [])
     \<lparr>CallToolRequest.name = ''browser_handle_dialog'', arguments = Some (JObject [])\<rparr> =
   (Inr \<lparr>content =
           [\<lparr>TextContent.type = ''text'',
             text' = ''The tool "browser_handle_dialog" can only be used when there is related modal state present.'' @
                     [CHR 0x0A] @ ''### Modal state''\<rparr>],
         isError = Some True\<rparr>,
    (sample_config None, []), [CallModalStates, CallModalStatesMarkdown])\<close>
  using callTool_rejects_missing_modal_state
    [of "\<lparr>CallToolRequest.name = ''browser_handle_dialog'', arguments = Some (JObject [])\<rparr>"
      "[sample_tool ''browser_handle_dialog'' ''core'' (Some ''dialog'')]"
      "sample_tool ''browser_handle_dialog'' ''core'' (Some ''dialog'')" "''dialog''"
      sample_env "(sample_config None, [])"]
  by (simp add: sample_env_def sample_tool_def)

text \<open>
  C3. A call of a tool whose \<open>clearsModalState\<close> is falsy (absent or empty), made while
  the session has at least one modal state, returns the error envelope whose text is the
  message that the tool does not handle the modal state, followed by the rendered modal
  states. The session state is returned as it was and \<open>context.run\<close> is never called.
\<close>

theorem callTool_rejects_unhandled_modal_state:
  assumes "find (\<lambda>tool. ToolSchema.name (schema tool) = CallToolRequest.name request) tools = Some T"
    and "\<not> truthy_string (clearsModalState T)"
    and "Context_modalStates env context \<noteq> []"
  shows \<open>callTool env tools context request =
           (Inr \<lparr>content =
                   [\<lparr>TextContent.type = ''text'',
                     text' = join ((''Tool "'' @ CallToolRequest.name request @
                                    ''" does not handle the modal state.'') #
                                   Context_modalStatesMarkdown env context) [CHR 0x0A]\<rparr>],
                 isError = Some True\<rparr>,
            context, [CallModalStates, CallModalStatesMarkdown]) \<and>
         (\<forall>line \<in> set ((''Tool "'' @ CallToolRequest.name request @
                         ''" does not handle the modal state.'') #
                        Context_modalStatesMarkdown env context).
            string_includes
              (join ((''Tool "'' @ CallToolRequest.name request @
                      ''" does not handle the modal state.'') #
                     Context_modalStatesMarkdown env context) [CHR 0x0A]) line) \<and>
         (\<forall>tool args. CallRun tool args \<notin> set (snd (snd (callTool env tools context request))))\<close>
proof -
  have \<open>callTool env tools context request =
           (Inr (errorResult ((''Tool "'' @ CallToolRequest.name request @
                                ''" does not handle the modal state.'') #
                              Context_modalStatesMarkdown env context)),
            context, [CallModalStates, CallModalStatesMarkdown])\<close>
    using assms by (simp add: callTool_def)
  then show ?thesis
    by (simp add: errorResult_def join_includes del: join.simps)
qed

theorem callTool_rejects_unhandled_modal_state_witness:
  \<open>callTool sample_env [sample_tool ''browser_click'' ''core'' None]
     (sample_config None, [\<lparr>ModalState.type = ''dialog'', description = ''alert dialog''\<rparr>])
     \<lparr>CallToolRequest.name = ''browser_click'', arguments = Some (JObject [])\<rparr> =
   (Inr \<lparr>content =
           [\<lparr>TextContent.type = ''text'',
             text' = ''Tool "browser_click" does not handle the modal state.'' @
                     [CHR 0x0A] @ ''### Modal state'' @ [CHR 0x0A] @ ''- [alert dialog]''\<rparr>],
         isError = Some True\<rparr>,
    (sample_config None, [\<lparr>ModalState.type = ''dialog'', description = ''alert dialog''\<rparr>]),
    [CallModalStates, CallModalStatesMarkdown])\<close>
  using callTool_rejects_unhandled_modal_state [of "\<lparr>CallToolRequest.name = ''browser_click'', arguments = Some (JObject [])\<rparr>"
      "[sample_tool ''browser_click'' ''core'' None]"
      "sample_tool ''browser_click'' ''core'' None"
      sample_env
      "(sample_config None, [\<lparr>ModalState.type = ''dialog'', description = ''alert dialog''\<rparr>])"]
  by (simp add: sample_env_def sample_tool_def)

text \<open>
  C4. A call that names no tool of the active set returns (it does not throw) the error
  envelope with the single text \<open>Tool "N" not found\<close>, \<open>N\<close> being the requested name.
  Nothing is called on the session.
\<close>

theorem callTool_tool_not_found:
  assumes "CallToolRequest.name request \<notin> set (map (\<lambda>tool. ToolSchema.name (schema tool)) tools)"
  shows \<open>callTool env tools context request =
           (Inr \<lparr>content =
                   [\<lparr>TextContent.type = ''text'',
                     text' = ''Tool "'' @ CallToolRequest.name request @ ''" not found''\<rparr>],
                 isError = Some True\<rparr>,
            context, [])\<close>
proof -
  have "find (\<lambda>tool. ToolSchema.name (schema tool) = CallToolRequest.name request) tools = None"
    using assms by (force simp: find_None_iff image_iff)
  then show ?thesis
    by (simp add: callTool_def errorResult_def)
qed

theorem callTool_tool_not_found_witness:
  \<open>callTool sample_env [sample_tool ''browser_click'' ''core'' None] (sample_config None, [])
     \<lparr>CallToolRequest.name = ''nonexistent'', arguments = None\<rparr> =
   (Inr \<lparr>content = [\<lparr>TextContent.type = ''text'', text' = ''Tool "nonexistent" not found''\<rparr>],
         isError = Some True\<rparr>,
    (sample_config None, []), [])\<close>
  using callTool_tool_not_found [of "\<lparr>CallToolRequest.name = ''nonexistent'', arguments = None\<rparr>"
      "[sample_tool ''browser_click'' ''core'' None]" sample_env "(sample_config None, [])"]
  by (simp add: sample_tool_def)

text \<open>
  C5 (amended). Whenever \<open>context.run\<close> is called and throws \<open>E\<close>, the exception is
  caught. If \<open>String(E)\<close> yields a string, the handler returns the error envelope whose
  single text is that string. If \<open>String(E)\<close> throws, what it throws leaves the handler.
  An exception leaves the handler in no other case.
\<close>

theorem callTool_catches_run_exception:
  "(\<forall>T E after.
      CallRun T (arguments request) \<in> set (snd (snd (callTool env tools context request))) \<and>
      Context_run env context T (arguments request) = (Inl E, after) \<longrightarrow>
      (\<forall>message. String env E = Inr message \<longrightarrow>
         callTool env tools context request =
           (Inr \<lparr>content = [\<lparr>TextContent.type = ''text'', text' = message\<rparr>],
                 isError = Some True\<rparr>,
            after, [CallModalStates, CallRun T (arguments request)])) \<and>
      (\<forall>e. String env E = Inl e \<longrightarrow>
         callTool env tools context request =
           (Inl e, after, [CallModalStates, CallRun T (arguments request)]))) \<and>
   (\<forall>e. fst (callTool env tools context request) = Inl e \<longrightarrow>
      (\<exists>T E after.
         CallRun T (arguments request) \<in> set (snd (snd (callTool env tools context request))) \<and>
         Context_run env context T (arguments request) = (Inl E, after) \<and>
         String env E = Inl e))"
proof -
  have a: "\<forall>T E after.
      CallRun T (arguments request) \<in> set (snd (snd (callTool env tools context request))) \<and>
      Context_run env context T (arguments request) = (Inl E, after) \<longrightarrow>
      (\<forall>message. String env E = Inr message \<longrightarrow>
         callTool env tools context request =
           (Inr \<lparr>content = [\<lparr>TextContent.type = ''text'', text' = message\<rparr>],
                 isError = Some True\<rparr>,
            after, [CallModalStates, CallRun T (arguments request)])) \<and>
      (\<forall>e. String env E = Inl e \<longrightarrow>
         callTool env tools context request =
           (Inl e, after, [CallModalStates, CallRun T (arguments request)]))"
    by (auto simp: callTool_def errorResult_def Let_def
        split: option.splits prod.splits sum.splits)
  have b: "\<forall>e. fst (callTool env tools context request) = Inl e \<longrightarrow>
      (\<exists>T E after.
         CallRun T (arguments request) \<in> set (snd (snd (callTool env tools context request))) \<and>
         Context_run env context T (arguments request) = (Inl E, after) \<and>
         String env E = Inl e)"
    by (auto simp: callTool_def errorResult_def Let_def
        split: option.splits prod.splits sum.splits if_splits)
  from a b show ?thesis by (rule conjI)
qed

theorem callTool_catches_run_exception_witness:
  "callTool sample_env [sample_tool ''browser_click'' ''core'' None] (sample_config None, [])
     \<lparr>CallToolRequest.name = ''browser_click'', arguments = None\<rparr> =
   (Inr \<lparr>content = [\<lparr>TextContent.type = ''text'', text' = ''Error: no arguments''\<rparr>],
         isError = Some True\<rparr>,
    (sample_config None, []),
    [CallModalStates, CallRun (sample_tool ''browser_click'' ''core'' None) None])"
proof -
  have run: "CallRun (sample_tool ''browser_click'' ''core'' None)
               (arguments \<lparr>CallToolRequest.name = ''browser_click'', arguments = None\<rparr>)
             \<in> set (snd (snd (callTool sample_env [sample_tool ''browser_click'' ''core'' None]
                                (sample_config None, [])
                                \<lparr>CallToolRequest.name = ''browser_click'', arguments = None\<rparr>))) \<and>
             Context_run sample_env (sample_config None, [])
               (sample_tool ''browser_click'' ''core'' None)
               (arguments \<lparr>CallToolRequest.name = ''browser_click'', arguments = None\<rparr>) =
             (Inl (JsError ''Error'' ''no arguments''), (sample_config None, []))"
    by (simp add: sample_env_def sample_tool_def callTool_def)
  have str: "String sample_env (JsError ''Error'' ''no arguments'') = Inr ''Error: no arguments''"
    by (simp add: sample_env_def)
  from callTool_catches_run_exception
         [THEN conjunct1, rule_format, OF run, THEN conjunct1, rule_format, OF str]
  show ?thesis by simp
qed

text \<open>
  C5 as first stated does not hold for every thrown value: when \<open>context.run\<close> throws an
  object without a prototype, \<open>String\<close> of it throws inside the \<open>catch\<close> block and the
  \<open>TypeError\<close> leaves the handler.
\<close>

theorem callTool_exception_escapes_counterexample:
  "fst (callTool sample_env [sample_tool ''browser_click'' ''core'' None] (sample_config None, [])
          \<lparr>CallToolRequest.name = ''browser_click'', arguments = Some JNull\<rparr>) =
   Inl (JsError ''TypeError'' ''Cannot convert object to primitive value'')"
  by (simp add: sample_env_def sample_tool_def callTool_def)

section \<open>The list request\<close>

text \<open>
  C6. The answer to a list request has one entry per active tool, in order. The entry of
  a tool carries its name, its description, its input schema serialised by
  \<open>zodToJsonSchema\<close> and the annotations: the tool's title, \<open>readOnlyHint\<close> true exactly
  when the tool's type is \<open>readOnly\<close>, \<open>destructiveHint\<close> true exactly when it is
  \<open>destructive\<close>, and \<open>openWorldHint\<close> true.
\<close>

theorem listTools_entries:
  "length (listTools zodToJsonSchema tools) = length tools \<and>
   (\<forall>i < length tools.
      McpTool.name (listTools zodToJsonSchema tools ! i) = ToolSchema.name (schema (tools ! i)) \<and>
      McpTool.description (listTools zodToJsonSchema tools ! i) =
        ToolSchema.description (schema (tools ! i)) \<and>
      McpTool.inputSchema (listTools zodToJsonSchema tools ! i) =
        zodToJsonSchema (ToolSchema.inputSchema (schema (tools ! i))) \<and>
      ToolAnnotations.title (annotations (listTools zodToJsonSchema tools ! i)) =
        ToolSchema.title (schema (tools ! i)) \<and>
      (readOnlyHint (annotations (listTools zodToJsonSchema tools ! i)) \<longleftrightarrow>
         ToolSchema.type (schema (tools ! i)) = ''readOnly'') \<and>
      (destructiveHint (annotations (listTools zodToJsonSchema tools ! i)) \<longleftrightarrow>
         ToolSchema.type (schema (tools ! i)) = ''destructive'') \<and>
      openWorldHint (annotations (listTools zodToJsonSchema tools ! i)))"
  by (simp add: listTools_def)

theorem listTools_entries_witness:
  "listTools (\<lambda>s. ''{}'')
     [sample_tool ''browser_snapshot'' ''core'' None,
      (sample_tool ''browser_close'' ''core'' None)
        \<lparr>schema := (schema (sample_tool ''browser_close'' ''core'' None))
                      \<lparr>ToolSchema.type := ''destructive''\<rparr>\<rparr>] ! 1 =
   \<lparr>McpTool.name = ''browser_close'', McpTool.description = [], McpTool.inputSchema = ''{}'',
    annotations =
      \<lparr>ToolAnnotations.title = ''browser_close'', readOnlyHint = False, destructiveHint = True,
       openWorldHint = True\<rparr>\<rparr>"
  using listTools_entries [of "\<lambda>s. ''{}''"
     "[sample_tool ''browser_snapshot'' ''core'' None,
      (sample_tool ''browser_close'' ''core'' None)
        \<lparr>schema := (schema (sample_tool ''browser_close'' ''core'' None))
                      \<lparr>ToolSchema.type := ''destructive''\<rparr>\<rparr>]"]
  by (simp add: sample_tool_def listTools_def)

section \<open>Closing a connection\<close>

text \<open>
  C7. \<open>close\<close> closes the server first: if that throws, the exception leaves \<open>close\<close>
  and the session is not touched. Once the server is closed, a truthy \<open>keepBrowserOpen\<close>
  of the session's configuration ends \<open>close\<close> with the server closed and the session
  as it was; otherwise the session is closed next, and the connection ends with the closed
  server and the session as \<open>context.close\<close> left it (or with the exception that
  \<open>context.close\<close> threw).
\<close>

theorem Connection_close_order:
  "(\<forall>e. McpServer_close env (server this) = Inl e \<longrightarrow>
      Connection_close env this = (Inl e, [CallServerClose])) \<and>
   (\<forall>server'. McpServer_close env (server this) = Inr server' \<longrightarrow>
      (truthy_bool (keepBrowserOpen (Context_config env (context' this))) \<longrightarrow>
         Connection_close env this = (Inr (this\<lparr>server := server'\<rparr>), [CallServerClose])) \<and>
      (\<not> truthy_bool (keepBrowserOpen (Context_config env (context' this))) \<longrightarrow>
         (\<forall>after. Context_close env (context' this) = Inr after \<longrightarrow>
            Connection_close env this =
              (Inr (this\<lparr>server := server', context' := after\<rparr>),
               [CallServerClose, CallContextClose])) \<and>
         (\<forall>e. Context_close env (context' this) = Inl e \<longrightarrow>
            Connection_close env this = (Inl e, [CallServerClose, CallContextClose]))))"
  by (simp add: Connection_close_def)

theorem Connection_close_order_witness:
  "Connection_close sample_env
     \<lparr>server = 0,
      context' = (sample_config None,
                  [\<lparr>ModalState.type = ''dialog'', description = ''alert dialog''\<rparr>]),
      tools' = 0\<rparr> =
   (Inr \<lparr>server = 1, context' = (sample_config None, []), tools' = 0\<rparr>,
    [CallServerClose, CallContextClose]) \<and>
   Connection_close sample_env
     \<lparr>server = 0,
      context' = (sample_config (Some True),
                  [\<lparr>ModalState.type = ''dialog'', description = ''alert dialog''\<rparr>]),
      tools' = 0\<rparr> =
   (Inr \<lparr>server = 1,
         context' = (sample_config (Some True),
                     [\<lparr>ModalState.type = ''dialog'', description = ''alert dialog''\<rparr>]),
         tools' = 0\<rparr>,
    [CallServerClose])"
proof -
  have s: "McpServer_close sample_env (0::nat) = Inr 1"
    by (simp add: sample_env_def)
  have k: "\<not> truthy_bool (keepBrowserOpen (Context_config sample_env
             (sample_config None,
              [\<lparr>ModalState.type = ''dialog'', description = ''alert dialog''\<rparr>])))"
    by (simp add: sample_env_def sample_config_def)
  have c: "Context_close sample_env
             (sample_config None,
              [\<lparr>ModalState.type = ''dialog'', description = ''alert dialog''\<rparr>]) =
           Inr (sample_config None, [])"
    by (simp add: sample_env_def)
  have k': "truthy_bool (keepBrowserOpen (Context_config sample_env
             (sample_config (Some True),
              [\<lparr>ModalState.type = ''dialog'', description = ''alert dialog''\<rparr>])))"
    by (simp add: sample_env_def sample_config_def)
  have "Connection_close sample_env
     \<lparr>server = 0,
      context' = (sample_config None,
                  [\<lparr>ModalState.type = ''dialog'', description = ''alert dialog''\<rparr>]),
      tools' = 0\<rparr> =
   (Inr \<lparr>server = 1, context' = (sample_config None, []), tools' = 0\<rparr>,
    [CallServerClose, CallContextClose])"
    using Connection_close_order
      [of sample_env
          "\<lparr>server = 0,
            context' = (sample_config None,
                        [\<lparr>ModalState.type = ''dialog'', description = ''alert dialog''\<rparr>]),
            tools' = 0\<rparr>"]
      s k c
    by simp
  moreover
  have "Connection_close sample_env
     \<lparr>server = 0,
      context' = (sample_config (Some True),
                  [\<lparr>ModalState.type = ''dialog'', description = ''alert dialog''\<rparr>]),
      tools' = 0\<rparr> =
   (Inr \<lparr>server = 1,
         context' = (sample_config (Some True),
                     [\<lparr>ModalState.type = ''dialog'', description = ''alert dialog''\<rparr>]),
         tools' = 0\<rparr>,
    [CallServerClose])"
    using Connection_close_order
      [of sample_env
          "\<lparr>server = 0,
            context' = (sample_config (Some True),
                        [\<lparr>ModalState.type = ''dialog'', description = ''alert dialog''\<rparr>]),
            tools' = 0\<rparr>"]
      s k'
    by simp
  ultimately show ?thesis by (rule conjI)
qed

section \<open>The active tools of a connection\<close>


text \<open>
  Without a configured capability the connection's array is the catalog itself, shared
  with every other holder of the catalog; with one it is a new array.
\<close>

lemma createConnection_array_alias:
  "capabilities config = None \<or> capabilities config = Some [] \<Longrightarrow>
   createConnection_array config visionTools snapshotTools h =
     (if truthy_bool (vision config) then visionTools else snapshotTools, h)"
  by (auto simp: createConnection_array_def)

lemma createConnection_array_new:
  "capabilities config = Some caps \<Longrightarrow> caps \<noteq> [] \<Longrightarrow>
   fst (createConnection_array config visionTools snapshotTools h) = fresh h"
  by (simp add: createConnection_array_def)







text \<open>
  A session that writes the array it was handed changes what the next list request
  answers: the array is shared, not copied.
\<close>

lemma writing_session_changes_listing:
  "fst (serve_all sample_writing_env (\<lambda>s. ''{}'')
          \<lparr>server = 0,
           context' = \<lparr>arrays = arrays sample_heap, fresh = fresh sample_heap,
                       session = (sample_config None, [])\<rparr>,
           tools' = 0\<rparr>
          [ListTools,
           CallTool \<lparr>CallToolRequest.name = ''browser_click'', arguments = None\<rparr>,
           ListTools]) =
   [ListToolsResponse
      (listTools (\<lambda>s. ''{}'')
         [sample_tool ''browser_click'' ''core'' None, sample_tool ''browser_pdf_save'' ''pdf'' None]),
    CallToolResponse (Inr \<lparr>content = [], isError = None\<rparr>),
    ListToolsResponse []]"
  by (simp add: serve_def callTool_def sample_writing_env_def sample_world_env_def
      sample_heap_def sample_tool_def listTools_def)



section \<open>The screenshot tool: output path\<close>

lemma screenshot_handle_Inr:
  assumes "screenshot_handle env context params = Inr result"
  shows "\<exists>tab fileName.
           currentTabOrDie env context = Inr tab \<and>
           (if useStandardizedPath params
            then standardizedOutputFile env (page_url env tab) (fileType params)
            else outputFile env (context_config env context) (filename params)) = Inr fileName \<and>
           path (action_options (action result)) = fileName \<and>
           resultOverride result =
             \<lparr>content = [\<lparr>TextContent.type = ''text'', text' = ''Screenshot saved to: '' @ fileName\<rparr>],
              isError = None\<rparr>"
  using assms
  unfolding screenshot_handle_def
  by (auto simp: Let_def screenshot_result_def screenshot_options_def
      split: sum.splits if_splits)

lemma screenshot_handle_progress:
  assumes "currentTabOrDie env context = Inr tab"
    and "snapshotOrDie env tab = Inr snapshot"
    and "(if useStandardizedPath params
            then standardizedOutputFile env (page_url env tab) (fileType params)
            else outputFile env (context_config env context) (filename params)) = Inr fileName"
    and "truthy_string (ref params) \<longrightarrow>
           (\<exists>locator loc.
              refLocator env snapshot
                (if truthy_string (element params) then the (element params) else [])
                (the (ref params)) = Inr locator \<and>
              generateLocator env locator = Inr loc)"
  shows "\<exists>result. screenshot_handle env context params = Inr result"
  using assms
  unfolding screenshot_handle_def
  by (auto simp: Let_def split: sum.splits if_splits)

lemma fileType_filename: "fileType (params\<lparr>filename := other\<rparr>) = fileType params"
  by (simp add: fileType_def)

lemma screenshot_options_filename:
  "screenshot_options (params\<lparr>filename := other\<rparr>) fileName = screenshot_options params fileName"
  by (simp add: screenshot_options_def fileType_def)

lemma screenshot_result_filename:
  "screenshot_result (params\<lparr>filename := other\<rparr>) fileName tail act =
   screenshot_result params fileName tail act"
  by (simp add: screenshot_result_def screenshot_code_head_def)

lemma screenshot_handle_standardized_indep:
  assumes "useStandardizedPath params" and "useStandardizedPath (params\<lparr>filename := other\<rparr>)"
  shows "screenshot_handle (env\<lparr>outputFile := g\<rparr>) context (params\<lparr>filename := other\<rparr>) =
         screenshot_handle env context params"
  using assms
  unfolding screenshot_handle_def
  by (simp add: fileType_filename screenshot_options_filename screenshot_result_filename
      cong: sum.case_cong if_cong)

lemma screenshot_handle_provided_indep:
  assumes "\<not> useStandardizedPath params"
  shows "screenshot_handle (env\<lparr>standardizedOutputFile := g\<rparr>) context params =
         screenshot_handle env context params"
  using assms
  unfolding screenshot_handle_def
  by (simp cong: sum.case_cong if_cong)


text \<open>
  C9. When the file name of the validated arguments contains \<open>screenshot\<close> or
  \<open>capture\<close>, a result of the handler carries the path that \<open>standardizedOutputFile\<close>
  gave for the URL of the current page and the file type; the handler's outcome depends
  neither on \<open>outputFile\<close> nor on which such file name was supplied. When the file name
  contains neither, the path is the one \<open>outputFile\<close> gave for the configuration and the
  supplied file name, and \<open>standardizedOutputFile\<close> plays no part. Whenever the current
  tab, its snapshot and the chosen path function succeed (and no element reference is to be
  located), the handler returns a result, with that path in the options of its action and
  in its reported text.
\<close>

theorem screenshot_handle_output_path:
  "(string_includes (filename params) ''screenshot'' \<or>
    string_includes (filename params) ''capture'' \<longrightarrow>
      (\<forall>result. screenshot_handle env context params = Inr result \<longrightarrow>
         (\<exists>tab. currentTabOrDie env context = Inr tab \<and>
            standardizedOutputFile env (page_url env tab) (fileType params) =
              Inr (path (action_options (action result))))) \<and>
      (\<forall>g other.
         string_includes other ''screenshot'' \<or> string_includes other ''capture'' \<longrightarrow>
         screenshot_handle (env\<lparr>outputFile := g\<rparr>) context (params\<lparr>filename := other\<rparr>) =
         screenshot_handle env context params)) \<and>
   (\<not> string_includes (filename params) ''screenshot'' \<and>
    \<not> string_includes (filename params) ''capture'' \<longrightarrow>
      (\<forall>result. screenshot_handle env context params = Inr result \<longrightarrow>
         outputFile env (context_config env context) (filename params) =
           Inr (path (action_options (action result)))) \<and>
      (\<forall>g. screenshot_handle (env\<lparr>standardizedOutputFile := g\<rparr>) context params =
           screenshot_handle env context params)) \<and>
   (\<forall>tab snapshot fileName.
      currentTabOrDie env context = Inr tab \<and>
      snapshotOrDie env tab = Inr snapshot \<and>
      (if string_includes (filename params) ''screenshot'' \<or>
          string_includes (filename params) ''capture''
       then standardizedOutputFile env (page_url env tab) (fileType params)
       else outputFile env (context_config env context) (filename params)) = Inr fileName \<and>
      \<not> truthy_string (ref params) \<longrightarrow>
      (\<exists>result. screenshot_handle env context params = Inr result \<and>
         path (action_options (action result)) = fileName \<and>
         resultOverride result =
           \<lparr>content = [\<lparr>TextContent.type = ''text'',
                        text' = ''Screenshot saved to: '' @ fileName\<rparr>],
            isError = None\<rparr>))"
proof -
  have a: "useStandardizedPath params \<longrightarrow>
      (\<forall>result. screenshot_handle env context params = Inr result \<longrightarrow>
         (\<exists>tab. currentTabOrDie env context = Inr tab \<and>
            standardizedOutputFile env (page_url env tab) (fileType params) =
              Inr (path (action_options (action result)))))"
    using screenshot_handle_Inr [of env "context" params] by fastforce
  have b: "\<not> useStandardizedPath params \<longrightarrow>
      (\<forall>result. screenshot_handle env context params = Inr result \<longrightarrow>
         outputFile env (context_config env context) (filename params) =
           Inr (path (action_options (action result))))"
    using screenshot_handle_Inr [of env "context" params] by fastforce
  have c: "\<forall>tab snapshot fileName.
      currentTabOrDie env context = Inr tab \<and>
      snapshotOrDie env tab = Inr snapshot \<and>
      (if useStandardizedPath params
       then standardizedOutputFile env (page_url env tab) (fileType params)
       else outputFile env (context_config env context) (filename params)) = Inr fileName \<and>
      \<not> truthy_string (ref params) \<longrightarrow>
      (\<exists>result. screenshot_handle env context params = Inr result \<and>
         path (action_options (action result)) = fileName \<and>
         resultOverride result =
           \<lparr>content = [\<lparr>TextContent.type = ''text'',
                        text' = ''Screenshot saved to: '' @ fileName\<rparr>],
            isError = None\<rparr>)"
  proof (intro allI impI)
    fix tab snapshot fileName
    assume h: "currentTabOrDie env context = Inr tab \<and>
      snapshotOrDie env tab = Inr snapshot \<and>
      (if useStandardizedPath params
       then standardizedOutputFile env (page_url env tab) (fileType params)
       else outputFile env (context_config env context) (filename params)) = Inr fileName \<and>
      \<not> truthy_string (ref params)"
    then obtain result where r: "screenshot_handle env context params = Inr result"
      using screenshot_handle_progress [of env "context" tab snapshot params fileName] by blast
    from screenshot_handle_Inr [OF r] h
    have "path (action_options (action result)) = fileName \<and>
         resultOverride result =
           \<lparr>content = [\<lparr>TextContent.type = ''text'',
                        text' = ''Screenshot saved to: '' @ fileName\<rparr>],
            isError = None\<rparr>"
      by auto
    with r show "\<exists>result. screenshot_handle env context params = Inr result \<and>
         path (action_options (action result)) = fileName \<and>
         resultOverride result =
           \<lparr>content = [\<lparr>TextContent.type = ''text'',
                        text' = ''Screenshot saved to: '' @ fileName\<rparr>],
            isError = None\<rparr>"
      by blast
  qed
  have d: "useStandardizedPath params \<longrightarrow>
      (\<forall>g other. useStandardizedPath (params\<lparr>filename := other\<rparr>) \<longrightarrow>
         screenshot_handle (env\<lparr>outputFile := g\<rparr>) context (params\<lparr>filename := other\<rparr>) =
         screenshot_handle env context params)"
    by (simp add: screenshot_handle_standardized_indep)
  have e: "\<not> useStandardizedPath params \<longrightarrow>
      (\<forall>g. screenshot_handle (env\<lparr>standardizedOutputFile := g\<rparr>) context params =
           screenshot_handle env context params)"
    by (simp add: screenshot_handle_provided_indep)
  from a b c d e show ?thesis
    unfolding useStandardizedPath_def by simp
qed


theorem screenshot_handle_output_path_witness:
  "(case screenshot_handle sample_screenshot_env (Some ''example.com'')
          \<lparr>raw = None, filename = ''my-screenshot.png'', fullPage = None, element = None,
           ref = None\<rparr>
    of Inl e \<Rightarrow> e | Inr result \<Rightarrow> path (action_options (action result))) =
     ''/out/example.com.jpeg'' \<and>
   (case screenshot_handle sample_screenshot_env (Some ''example.com'')
          \<lparr>raw = Some True, filename = ''page.png'', fullPage = None, element = None,
           ref = None\<rparr>
    of Inl e \<Rightarrow> e | Inr result \<Rightarrow> path (action_options (action result))) =
     ''/out/page.png''"
proof -
  have "\<exists>result.
          screenshot_handle sample_screenshot_env (Some ''example.com'')
            \<lparr>raw = None, filename = ''my-screenshot.png'', fullPage = None, element = None,
             ref = None\<rparr> = Inr result \<and>
          path (action_options (action result)) = ''/out/example.com.jpeg'' \<and>
          resultOverride result =
            \<lparr>content = [\<lparr>TextContent.type = ''text'',
                         text' = ''Screenshot saved to: '' @ ''/out/example.com.jpeg''\<rparr>],
             isError = None\<rparr>"
    by (rule screenshot_handle_output_path [THEN conjunct2, THEN conjunct2, rule_format,
          where tab = "''example.com''" and snapshot = "()"])
       (simp add: sample_screenshot_env_def fileType_def)
  moreover
  have "\<exists>result.
          screenshot_handle sample_screenshot_env (Some ''example.com'')
            \<lparr>raw = Some True, filename = ''page.png'', fullPage = None, element = None,
             ref = None\<rparr> = Inr result \<and>
          path (action_options (action result)) = ''/out/page.png'' \<and>
          resultOverride result =
            \<lparr>content = [\<lparr>TextContent.type = ''text'',
                         text' = ''Screenshot saved to: '' @ ''/out/page.png''\<rparr>],
             isError = None\<rparr>"
    by (rule screenshot_handle_output_path [THEN conjunct2, THEN conjunct2, rule_format,
          where tab = "''example.com''" and snapshot = "()"])
       (simp add: sample_screenshot_env_def fileType_def sample_config_def)
  ultimately show ?thesis
    by auto
qed

section \<open>The screenshot tool: input schema\<close>

lemma z_string_Inr: "z_string p v = Inr s \<longleftrightarrow> v = Some (JString s)"
  by (cases "(p, v)" rule: z_string.cases) auto

lemma z_string_optional_Inr: "z_string_optional p v = Inr s \<longleftrightarrow> v = map_option JString s"
  by (cases "(p, v)" rule: z_string_optional.cases; cases s) auto

lemma z_boolean_optional_Inr: "z_boolean_optional p v = Inr b \<longleftrightarrow> v = map_option JBool b"
  by (cases "(p, v)" rule: z_boolean_optional.cases; cases b) auto

lemma screenshotSchema_object_fields:
  "screenshotSchema_object (JObject kvs) = Inr data \<longleftrightarrow>
     z_boolean_optional [''raw''] (map_of kvs ''raw'') = Inr (raw data) \<and>
     z_string [''filename''] (map_of kvs ''filename'') = Inr (filename data) \<and>
     z_boolean_optional [''fullPage''] (map_of kvs ''fullPage'') = Inr (ScreenshotParams.fullPage data) \<and>
     z_string_optional [''element''] (map_of kvs ''element'') = Inr (element data) \<and>
     z_string_optional [''ref''] (map_of kvs ''ref'') = Inr (ref data)"
  by (cases data) (auto simp: Let_def split: sum.splits)

lemma screenshotSchema_object_Inr:
  "screenshotSchema_object input = Inr data \<longleftrightarrow>
     (\<exists>kvs. input = JObject kvs \<and>
        map_of kvs ''raw'' = map_option JBool (raw data) \<and>
        map_of kvs ''filename'' = Some (JString (filename data)) \<and>
        map_of kvs ''fullPage'' = map_option JBool (ScreenshotParams.fullPage data) \<and>
        map_of kvs ''element'' = map_option JString (element data) \<and>
        map_of kvs ''ref'' = map_option JString (ref data))"
proof (cases input)
  case (JObject kvs)
  then show ?thesis
    by (simp only: screenshotSchema_object_fields z_string_Inr z_string_optional_Inr
        z_boolean_optional_Inr json.inject simp_thms ex_simps)
qed simp_all

text \<open>
  C10 (amended). The schema accepts an input exactly when it is an object whose \<open>filename\<close>
  is a string, whose \<open>raw\<close> and \<open>fullPage\<close> are booleans or missing, whose \<open>element\<close>
  and \<open>ref\<close> are strings or missing, and in which \<open>element\<close> and \<open>ref\<close> are either both
  non-empty or both missing or empty. Such a well-typed object in which exactly one of
  the two is a non-empty string fails with the single issue
  \<open>Both element and ref must be provided or neither.\<close> at path \<open>ref, element\<close>. So the
  handler never receives arguments in which exactly one of the two is non-empty.
\<close>

theorem screenshotSchema_accepts:
  "(screenshotSchema input = Inr data \<longleftrightarrow>
      (\<exists>kvs. input = JObject kvs \<and>
         map_of kvs ''raw'' = map_option JBool (raw data) \<and>
         map_of kvs ''filename'' = Some (JString (filename data)) \<and>
         map_of kvs ''fullPage'' = map_option JBool (ScreenshotParams.fullPage data) \<and>
         map_of kvs ''element'' = map_option JString (element data) \<and>
         map_of kvs ''ref'' = map_option JString (ref data)) \<and>
      truthy_string (element data) = truthy_string (ref data)) \<and>
   ((\<exists>kvs. input = JObject kvs \<and>
         map_of kvs ''raw'' = map_option JBool (raw data) \<and>
         map_of kvs ''filename'' = Some (JString (filename data)) \<and>
         map_of kvs ''fullPage'' = map_option JBool (ScreenshotParams.fullPage data) \<and>
         map_of kvs ''element'' = map_option JString (element data) \<and>
         map_of kvs ''ref'' = map_option JString (ref data)) \<and>
      truthy_string (element data) \<noteq> truthy_string (ref data) \<longrightarrow>
    screenshotSchema input =
      Inl [custom ''Both element and ref must be provided or neither.'' [''ref'', ''element'']]) \<and>
   (screenshotSchema input = Inr data \<longrightarrow>
      truthy_string (element data) = truthy_string (ref data))"
proof -
  have a: "screenshotSchema input = Inr data \<longleftrightarrow>
      screenshotSchema_object input = Inr data \<and>
      truthy_string (element data) = truthy_string (ref data)"
    by (auto simp: screenshotSchema_def split: sum.splits if_splits)
  have b: "screenshotSchema_object input = Inr data \<and>
      truthy_string (element data) \<noteq> truthy_string (ref data) \<longrightarrow>
    screenshotSchema input =
      Inl [custom ''Both element and ref must be provided or neither.'' [''ref'', ''element'']]"
    by (auto simp: screenshotSchema_def)
  show ?thesis
    using a b unfolding screenshotSchema_object_Inr by blast
qed

theorem screenshotSchema_accepts_witness:
  "screenshotSchema
     (JObject [(''filename'', JString ''page.png''), (''element'', JString ''Submit button'')]) =
   Inl [custom ''Both element and ref must be provided or neither.'' [''ref'', ''element'']]"
  using screenshotSchema_accepts [of "JObject [(''filename'', JString ''page.png''), (''element'', JString ''Submit button'')]"
      "\<lparr>raw = None, filename = ''page.png'', fullPage = None, element = Some ''Submit button'',
        ref = None\<rparr>"]
  by simp

text \<open>
  C10 as first stated does not hold: an object with a file name, an empty \<open>element\<close>
  and no \<open>ref\<close> is accepted although exactly one of the two is present, and the empty
  object is rejected (the file name is required) although both are absent.
\<close>

theorem screenshotSchema_presence_counterexample:
  "screenshotSchema (JObject [(''filename'', JString ''page.png''), (''element'', JString [])]) =
     Inr \<lparr>raw = None, filename = ''page.png'', fullPage = None, element = Some [], ref = None\<rparr> \<and>
   screenshotSchema (JObject []) = Inl [invalid_type [''filename'']]"
  by (simp add: screenshotSchema_def)

end
